theory Spec2Isabelle
  imports Main "HOL-Library.AList" "HOL-Library.Multiset"
begin

section \<open>Values and errors\<close>

text \<open>
  The uploader reads cluster objects through the dynamic client, as trees of
  \<^verbatim>\<open>interface{}\<close>: strings, numbers, booleans, slices and
  \<^verbatim>\<open>map[string]interface{}\<close>. A Go map is an association list read with
  \<open>map_of\<close>: the first binding of a key is the map's binding.
\<close>

datatype jval =
    JNull
  | JBool bool
  | JNum int
  | JStr string
  | JList "jval list"
  | JMap "(string \<times> jval) list"

type_synonym object = "(string \<times> jval) list"

text \<open>
  The checked type assertions \<^verbatim>\<open>v, ok := m[k].(T)\<close>. A missing key gives the nil
  interface, on which every assertion fails.
\<close>

fun asMap :: "jval option \<Rightarrow> object option" where
  "asMap (Some (JMap m)) = Some m"
| "asMap _ = None"

fun asString :: "jval option \<Rightarrow> string option" where
  "asString (Some (JStr s)) = Some s"
| "asString _ = None"

fun asList :: "jval option \<Rightarrow> jval list option" where
  "asList (Some (JList xs)) = Some xs"
| "asList _ = None"

text \<open>
  Errors as values. \<open>Wrapf msg e\<close> is \<^verbatim>\<open>fmt.Errorf(msg + ": %w", e)\<close>;
  \<open>StatusNotFound\<close> and \<open>StatusAlreadyExists\<close> are the API status errors that
  \<^verbatim>\<open>k8serrors.IsNotFound\<close> and \<^verbatim>\<open>k8serrors.IsAlreadyExists\<close> recognise.
\<close>

datatype error =
    StatusNotFound
  | StatusAlreadyExists
  | Generic string
  | Wrapf string error
  | DeadlineExceeded
  | DataVolumeFailed "jval list"
  | InvalidOperator string
  | FieldErrors "string list"

fun IsNotFound :: "error \<Rightarrow> bool" where
  "IsNotFound StatusNotFound = True"
| "IsNotFound (Wrapf _ e) = IsNotFound e"
| "IsNotFound _ = False"

fun IsAlreadyExists :: "error \<Rightarrow> bool" where
  "IsAlreadyExists StatusAlreadyExists = True"
| "IsAlreadyExists (Wrapf _ e) = IsAlreadyExists e"
| "IsAlreadyExists _ = False"

section \<open>hasPrimaryRole\<close>

text \<open>
  The block the source repeats four times:
  \<^verbatim>\<open>if l, ok := m[layer].(map[string]interface{}); ok {
     if role, ok := l["role"].(string); ok && role == "Primary" { return true } }\<close>
\<close>

definition layerIsPrimary :: "object \<Rightarrow> string \<Rightarrow> bool" where
  "layerIsPrimary m layer =
     (case asMap (map_of m layer) of
        None \<Rightarrow> False
      | Some l \<Rightarrow>
          (case asString (map_of l ''role'') of
             None \<Rightarrow> False
           | Some role \<Rightarrow> role = ''Primary''))"

definition hasPrimaryRole :: "object \<Rightarrow> bool" where
  "hasPrimaryRole spec =
     (if (case asMap (map_of spec ''network'') of
            None \<Rightarrow> False
          | Some network \<Rightarrow>
              (if layerIsPrimary network ''layer2'' then True
               else layerIsPrimary network ''layer3''))
      then True
      else if layerIsPrimary spec ''layer2'' then True
      else if layerIsPrimary spec ''layer3'' then True
      else False)"

text \<open>
  The claim's reading of a role path: the value found by following the keys of a path
  through nested key/value maps, if every step is a map holding the next key.
\<close>

fun lookupPath :: "string list \<Rightarrow> jval \<Rightarrow> jval option" where
  "lookupPath [] v = Some v"
| "lookupPath (k # ks) (JMap m) =
     (case map_of m k of None \<Rightarrow> None | Some v \<Rightarrow> lookupPath ks v)"
| "lookupPath (k # ks) _ = None"

definition holdsPrimary :: "object \<Rightarrow> string list \<Rightarrow> bool" where
  "holdsPrimary spec path = (lookupPath path (JMap spec) = Some (JStr ''Primary''))"

section \<open>Label selectors\<close>

text \<open>
  \<^verbatim>\<open>metav1.LabelSelector\<close> and \<^verbatim>\<open>metav1.LabelSelectorRequirement\<close>, the structures
  \<^verbatim>\<open>selectorMatchesNamespace\<close> fills in. The operator is the string found in the
  object, unchecked.
\<close>

record LabelSelectorRequirement =
  Key :: string
  Operator :: string
  Values :: "string list"

record LabelSelector =
  MatchLabels :: "(string \<times> string) list"
  MatchExpressions :: "LabelSelectorRequirement list"

text \<open>
  The selector library the source calls (k8s.io/apimachinery, packages
  \<^verbatim>\<open>labels\<close> and \<^verbatim>\<open>meta/v1\<close>): \<^verbatim>\<open>labels.NewRequirement\<close>,
  \<^verbatim>\<open>Requirement.Matches\<close>, \<^verbatim>\<open>metav1.LabelSelectorAsSelector\<close> and
  \<^verbatim>\<open>Selector.Matches\<close>. They are the library's functions, not the
  repository's, written here after the library: a requirement is checked when it is
  built (a valid key; a value for \<^verbatim>\<open>In\<close> and \<^verbatim>\<open>NotIn\<close>; exactly one value
  for an equality; no value for \<^verbatim>\<open>Exists\<close> and \<^verbatim>\<open>DoesNotExist\<close>; valid
  values), and a selector matches when each of its requirements does. The library's
  syntax checks of label keys and label values are the parameters \<open>vk\<close> and \<open>vv\<close>.
\<close>

datatype selection = In | NotIn | Equals | Exists | DoesNotExist

record Requirement =
  rkey :: string
  roperator :: selection
  strValues :: "string list"

definition NewRequirement ::
  "(string \<Rightarrow> bool) \<Rightarrow> (string \<Rightarrow> bool) \<Rightarrow> string \<Rightarrow> selection \<Rightarrow> string list
     \<Rightarrow> error + Requirement" where
  "NewRequirement vk vv key op vals =
     (let keyErrs = (if vk key then [] else [''invalid label key'']);
          opErrs =
            (case op of
               In \<Rightarrow> if vals = [] then [''for in, notin operators, values set can not be empty''] else []
             | NotIn \<Rightarrow> if vals = [] then [''for in, notin operators, values set can not be empty''] else []
             | Equals \<Rightarrow> if length vals \<noteq> 1 then [''exact-match compatibility requires one single value''] else []
             | Exists \<Rightarrow> if vals \<noteq> [] then [''values set must be empty for exists and does not exist''] else []
             | DoesNotExist \<Rightarrow> if vals \<noteq> [] then [''values set must be empty for exists and does not exist''] else []);
          valErrs = map (\<lambda>v. ''invalid label value'') (filter (\<lambda>v. \<not> vv v) vals);
          allErrs = keyErrs @ opErrs @ valErrs
      in if allErrs = [] then Inr \<lparr>rkey = key, roperator = op, strValues = vals\<rparr>
         else Inl (FieldErrors allErrs))"

definition requirementMatches :: "Requirement \<Rightarrow> (string \<rightharpoonup> string) \<Rightarrow> bool" where
  "requirementMatches r ls =
     (case roperator r of
        In \<Rightarrow> (case ls (rkey r) of None \<Rightarrow> False | Some v \<Rightarrow> v \<in> set (strValues r))
      | Equals \<Rightarrow> (case ls (rkey r) of None \<Rightarrow> False | Some v \<Rightarrow> v \<in> set (strValues r))
      | NotIn \<Rightarrow> (case ls (rkey r) of None \<Rightarrow> True | Some v \<Rightarrow> v \<notin> set (strValues r))
      | Exists \<Rightarrow> ls (rkey r) \<noteq> None
      | DoesNotExist \<Rightarrow> ls (rkey r) = None)"

fun equalsRequirements ::
  "(string \<Rightarrow> bool) \<Rightarrow> (string \<Rightarrow> bool) \<Rightarrow> (string \<times> string) list \<Rightarrow> error + Requirement list" where
  "equalsRequirements vk vv [] = Inr []"
| "equalsRequirements vk vv ((k, v) # rest) =
     (case NewRequirement vk vv k Equals [v] of
        Inl e \<Rightarrow> Inl e
      | Inr r \<Rightarrow>
          (case equalsRequirements vk vv rest of
             Inl e \<Rightarrow> Inl e
           | Inr rs \<Rightarrow> Inr (r # rs)))"

definition operatorOf :: "string \<Rightarrow> error + selection" where
  "operatorOf s =
     (if s = ''In'' then Inr In
      else if s = ''NotIn'' then Inr NotIn
      else if s = ''Exists'' then Inr Exists
      else if s = ''DoesNotExist'' then Inr DoesNotExist
      else Inl (InvalidOperator s))"

fun expressionRequirements ::
  "(string \<Rightarrow> bool) \<Rightarrow> (string \<Rightarrow> bool) \<Rightarrow> LabelSelectorRequirement list
     \<Rightarrow> error + Requirement list" where
  "expressionRequirements vk vv [] = Inr []"
| "expressionRequirements vk vv (expr # rest) =
     (case operatorOf (Operator expr) of
        Inl e \<Rightarrow> Inl e
      | Inr op \<Rightarrow>
          (case NewRequirement vk vv (Key expr) op (Values expr) of
             Inl e \<Rightarrow> Inl e
           | Inr r \<Rightarrow>
               (case expressionRequirements vk vv rest of
                  Inl e \<Rightarrow> Inl e
                | Inr rs \<Rightarrow> Inr (r # rs))))"

definition LabelSelectorAsSelector ::
  "(string \<Rightarrow> bool) \<Rightarrow> (string \<Rightarrow> bool) \<Rightarrow> LabelSelector \<Rightarrow> error + Requirement list" where
  "LabelSelectorAsSelector vk vv ps =
     (if length (MatchLabels ps) + length (MatchExpressions ps) = 0 then Inr []
      else
        (case equalsRequirements vk vv (MatchLabels ps) of
           Inl e \<Rightarrow> Inl e
         | Inr eqs \<Rightarrow>
             (case expressionRequirements vk vv (MatchExpressions ps) of
                Inl e \<Rightarrow> Inl e
              | Inr exprs \<Rightarrow> Inr (eqs @ exprs))))"

definition selectorMatches :: "Requirement list \<Rightarrow> (string \<rightharpoonup> string) \<Rightarrow> bool" where
  "selectorMatches sel ls = list_all (\<lambda>r. requirementMatches r ls) sel"

section \<open>selectorMatchesNamespace\<close>

text \<open>
  The loop over \<^verbatim>\<open>matchLabels\<close> stores every string value under its key; the
  bindings of the Go map are the first bindings of the association list
  (\<open>AList.clearjunk\<close>).
\<close>

fun parseMatchLabels :: "object \<Rightarrow> (string \<times> string) list \<Rightarrow> (string \<times> string) list" where
  "parseMatchLabels [] acc = acc"
| "parseMatchLabels ((k, v) # rest) acc =
     (case asString (Some v) of
        Some strVal \<Rightarrow> parseMatchLabels rest (AList.update k strVal acc)
      | None \<Rightarrow> parseMatchLabels rest acc)"

fun parseValues :: "jval list \<Rightarrow> string list" where
  "parseValues [] = []"
| "parseValues (v # rest) =
     (case asString (Some v) of
        Some strVal \<Rightarrow> strVal # parseValues rest
      | None \<Rightarrow> parseValues rest)"

definition parseRequirement :: "object \<Rightarrow> LabelSelectorRequirement" where
  "parseRequirement exprMap =
     \<lparr>Key = (case asString (map_of exprMap ''key'') of Some key \<Rightarrow> key | None \<Rightarrow> ''''),
      Operator = (case asString (map_of exprMap ''operator'') of Some operator \<Rightarrow> operator | None \<Rightarrow> ''''),
      Values = (case asList (map_of exprMap ''values'') of Some values \<Rightarrow> parseValues values | None \<Rightarrow> [])\<rparr>"

fun parseMatchExpressions :: "jval list \<Rightarrow> LabelSelectorRequirement list" where
  "parseMatchExpressions [] = []"
| "parseMatchExpressions (expr # rest) =
     (case asMap (Some expr) of
        None \<Rightarrow> parseMatchExpressions rest
      | Some exprMap \<Rightarrow> parseRequirement exprMap # parseMatchExpressions rest)"

definition parseLabelSelector :: "object \<Rightarrow> LabelSelector" where
  "parseLabelSelector nsSelector =
     \<lparr>MatchLabels =
        (case asMap (map_of nsSelector ''matchLabels'') of
           Some matchLabels \<Rightarrow> parseMatchLabels (AList.clearjunk matchLabels) []
         | None \<Rightarrow> []),
      MatchExpressions =
        (case asList (map_of nsSelector ''matchExpressions'') of
           Some matchExpressions \<Rightarrow> parseMatchExpressions matchExpressions
         | None \<Rightarrow> [])\<rparr>"

text \<open>
  The end of \<^verbatim>\<open>selectorMatchesNamespace\<close>: the conversion of the selector, a failed
  conversion being no match, and the match against the namespace's labels.
\<close>

definition labelSelectorMatches ::
  "(string \<Rightarrow> bool) \<Rightarrow> (string \<Rightarrow> bool) \<Rightarrow> LabelSelector \<Rightarrow> (string \<rightharpoonup> string) \<Rightarrow> bool" where
  "labelSelectorMatches vk vv labelSelector nsLabels =
     (case LabelSelectorAsSelector vk vv labelSelector of
        Inl err \<Rightarrow> False
      | Inr selector \<Rightarrow> selectorMatches selector nsLabels)"

definition selectorMatchesNamespace ::
  "(string \<Rightarrow> bool) \<Rightarrow> (string \<Rightarrow> bool) \<Rightarrow> object \<Rightarrow> (string \<rightharpoonup> string) \<Rightarrow> bool" where
  "selectorMatchesNamespace vk vv spec nsLabels =
     (case asMap (map_of spec ''namespaceSelector'') of
        None \<Rightarrow> False
      | Some nsSelector \<Rightarrow> labelSelectorMatches vk vv (parseLabelSelector nsSelector) nsLabels)"

text \<open>
  What one \<^verbatim>\<open>matchExpressions\<close> entry asks of the labels, once converted: the
  conversion succeeds and the requirement matches.
\<close>

definition expressionHolds ::
  "(string \<Rightarrow> bool) \<Rightarrow> (string \<Rightarrow> bool) \<Rightarrow> (string \<rightharpoonup> string) \<Rightarrow> LabelSelectorRequirement \<Rightarrow> bool" where
  "expressionHolds vk vv ls expr =
     (case operatorOf (Operator expr) of
        Inl e \<Rightarrow> False
      | Inr op \<Rightarrow>
          (case NewRequirement vk vv (Key expr) op (Values expr) of
             Inl e \<Rightarrow> False
           | Inr r \<Rightarrow> requirementMatches r ls))"

definition equalityHolds ::
  "(string \<Rightarrow> bool) \<Rightarrow> (string \<Rightarrow> bool) \<Rightarrow> (string \<rightharpoonup> string) \<Rightarrow> string \<times> string \<Rightarrow> bool" where
  "equalityHolds vk vv ls kv =
     (case NewRequirement vk vv (fst kv) Equals [snd kv] of
        Inl e \<Rightarrow> False
      | Inr r \<Rightarrow> requirementMatches r ls)"

text \<open>Checks that accept every label key and every label value.\<close>

definition acceptAll :: "string \<Rightarrow> bool" where
  "acceptAll s = True"


section \<open>The cluster as the uploader sees it\<close>

text \<open>
  Every call the uploader makes to the cluster, to the file system or to the exec
  transport is answered by the world: one field per call site, a list of answers for a
  call made in a polling loop (one answer per poll, in order, up to the deadline of the
  poll). Each function returns its Go result together with the trace of the calls it
  made, in order. Progress messages on standard output are left out of the trace, except
  the cleanup's messages and the phase notices of the wait.
\<close>

datatype event =
    GetNamespace
  | ListCUDN
  | ListUDN
  | CreatePod
  | GetPod
  | CreateService
  | OpenFile
  | StatFile
  | StartTarWriter
  | NewSPDYExecutor
  | StreamWithContext
  | ReceiveErrChan
  | CloseFile
  | CreateDataVolume jval
  | GetDataVolume
  | DeleteService
  | DeletePod
  | Println string
  | Warning string error

record world =
  osStat :: "error + int"
  nsGet :: "error + (string \<rightharpoonup> string)"
  cudnList :: "error + object list"
  udnList :: "error + object list"
  podCreate :: "error option"
  podGets :: "(error + (string \<times> string) list) list"
  svcCreate :: "error option"
  fileOpen :: "error option"
  fileStat :: "error + int"
  tarWriteHeader :: "error option"
  ioCopy :: "error + int"
  newExecutor :: "error option"
  execStream :: "error option"
  dvCreate :: "error option"
  dvGets :: "(error + object) list"
  svcDelete :: "error option"
  podDelete :: "error option"

record GoldenImageUploader =
  namespace :: string
  pvcName :: string
  pvcSize :: string
  storageClass :: string

definition serverPodName :: string where
  "serverPodName = ''mcs-image-server''"

definition serverSvcName :: string where
  "serverSvcName = ''mcs-image-server''"

definition DVPhaseSucceeded :: string where
  "DVPhaseSucceeded = ''Succeeded''"

definition DVPhaseFailed :: string where
  "DVPhaseFailed = ''Failed''"

text \<open>
  \<^verbatim>\<open>wait.PollUntilContextTimeout(ctx, interval, timeout, true, condition)\<close>, of
  the library k8s.io/apimachinery: the condition is called on each answer in turn; the poll ends with the condition's error,
  or with success when the condition is done, and with the context's deadline error
  when the answers run out. The state \<open>s\<close> is what the condition's closure captures.
\<close>

fun PollUntilContextTimeout ::
  "('s \<Rightarrow> 'r \<Rightarrow> (bool \<times> error option) \<times> 's \<times> event list) \<Rightarrow> 's \<Rightarrow> 'r list
     \<Rightarrow> error option \<times> event list" where
  "PollUntilContextTimeout condition s [] = (Some DeadlineExceeded, [])"
| "PollUntilContextTimeout condition s (r # rs) =
     (case condition s r of
        ((ok, err), s', evs) \<Rightarrow>
          if err \<noteq> None \<or> ok then (err, evs)
          else (case PollUntilContextTimeout condition s' rs of
                  (res, evs') \<Rightarrow> (res, evs @ evs')))"

section \<open>The primary-UDN detector\<close>

fun cudnLoop ::
  "(string \<Rightarrow> bool) \<Rightarrow> (string \<Rightarrow> bool) \<Rightarrow> (string \<rightharpoonup> string) \<Rightarrow> object list \<Rightarrow> bool" where
  "cudnLoop vk vv nsLabels [] = False"
| "cudnLoop vk vv nsLabels (cudn # rest) =
     (case asMap (map_of cudn ''spec'') of
        None \<Rightarrow> cudnLoop vk vv nsLabels rest
      | Some spec \<Rightarrow>
          if \<not> hasPrimaryRole spec then cudnLoop vk vv nsLabels rest
          else if selectorMatchesNamespace vk vv spec nsLabels then True
          else cudnLoop vk vv nsLabels rest)"

fun udnLoop :: "object list \<Rightarrow> bool" where
  "udnLoop [] = False"
| "udnLoop (udn # rest) =
     (case asMap (map_of udn ''spec'') of
        None \<Rightarrow> udnLoop rest
      | Some spec \<Rightarrow> if hasPrimaryRole spec then True else udnLoop rest)"

definition checkNamespaceScopedUDN :: "world \<Rightarrow> (bool \<times> error option) \<times> event list" where
  "checkNamespaceScopedUDN w =
     (case udnList w of
        Inl err \<Rightarrow>
          if IsNotFound err then ((False, None), [ListUDN])
          else ((False, Some (Wrapf ''listing UDNs'' err)), [ListUDN])
      | Inr items \<Rightarrow> ((udnLoop items, None), [ListUDN]))"

definition namespaceHasPrimaryUDN ::
  "(string \<Rightarrow> bool) \<Rightarrow> (string \<Rightarrow> bool) \<Rightarrow> world \<Rightarrow> (bool \<times> error option) \<times> event list" where
  "namespaceHasPrimaryUDN vk vv w =
     (case nsGet w of
        Inl err \<Rightarrow> ((False, Some (Wrapf ''getting namespace'' err)), [GetNamespace])
      | Inr nsLabels \<Rightarrow>
          if nsLabels ''k8s.ovn.org/primary-user-defined-network'' = None
          then ((False, None), [GetNamespace])
          else
            (case cudnList w of
               Inl err \<Rightarrow>
                 if IsNotFound err
                 then (case checkNamespaceScopedUDN w of
                         (r, t) \<Rightarrow> (r, [GetNamespace, ListCUDN] @ t))
                 else ((False, Some (Wrapf ''listing CUDNs'' err)), [GetNamespace, ListCUDN])
             | Inr items \<Rightarrow>
                 if cudnLoop vk vv nsLabels items
                 then ((True, None), [GetNamespace, ListCUDN])
                 else (case checkNamespaceScopedUDN w of
                         (r, t) \<Rightarrow> (r, [GetNamespace, ListCUDN] @ t))))"

section \<open>The ephemeral origin server\<close>

fun podIsReady :: "(string \<times> string) list \<Rightarrow> bool" where
  "podIsReady [] = False"
| "podIsReady ((condType, condStatus) # rest) =
     (if condType = ''Ready'' \<and> condStatus = ''True'' then True else podIsReady rest)"

definition podReadyCondition ::
  "unit \<Rightarrow> error + (string \<times> string) list \<Rightarrow> (bool \<times> error option) \<times> unit \<times> event list" where
  "podReadyCondition s r =
     (case r of
        Inl err \<Rightarrow> ((False, Some err), s, [GetPod])
      | Inr conditions \<Rightarrow> ((podIsReady conditions, None), s, [GetPod]))"

definition createServerPod :: "world \<Rightarrow> error option \<times> event list" where
  "createServerPod w =
     (case podCreate w of
        Some err \<Rightarrow>
          if \<not> IsAlreadyExists err then (Some err, [CreatePod])
          else (case PollUntilContextTimeout podReadyCondition () (podGets w) of
                  (r, t) \<Rightarrow> (r, CreatePod # t))
      | None \<Rightarrow>
          (case PollUntilContextTimeout podReadyCondition () (podGets w) of
             (r, t) \<Rightarrow> (r, CreatePod # t)))"

definition createServerService :: "world \<Rightarrow> error option \<times> event list" where
  "createServerService w =
     (case svcCreate w of
        Some err \<Rightarrow> if \<not> IsAlreadyExists err then (Some err, [CreateService]) else (None, [CreateService])
      | None \<Rightarrow> (None, [CreateService]))"

definition cleanup :: "world \<Rightarrow> event list" where
  "cleanup w =
     [Println ''Cleaning up ephemeral resources...'', DeleteService]
     @ (case svcDelete w of
          Some err \<Rightarrow> if \<not> IsNotFound err then [Warning ''failed to delete service'' err] else []
        | None \<Rightarrow> [])
     @ [DeletePod]
     @ (case podDelete w of
          Some err \<Rightarrow> if \<not> IsNotFound err then [Warning ''failed to delete pod'' err] else []
        | None \<Rightarrow> [])"

section \<open>The file streaming channel\<close>

text \<open>
  What the archive-writing goroutine sends on \<^verbatim>\<open>errChan\<close> when it ends: the
  header-write error, the copy error, or nil.
\<close>

definition tarWriter :: "world \<Rightarrow> error option" where
  "tarWriter w =
     (case tarWriteHeader w of
        Some err \<Rightarrow> Some (Wrapf ''writing tar header'' err)
      | None \<Rightarrow>
          (case ioCopy w of
             Inl err \<Rightarrow> Some (Wrapf ''copying file to tar'' err)
           | Inr written \<Rightarrow> None))"

definition streamImageToPod :: "world \<Rightarrow> error option \<times> event list" where
  "streamImageToPod w =
     (case fileOpen w of
        Some err \<Rightarrow> (Some (Wrapf ''opening local file'' err), [OpenFile])
      | None \<Rightarrow>
          (case fileStat w of
             Inl err \<Rightarrow> (Some (Wrapf ''stat local file'' err), [OpenFile, StatFile, CloseFile])
           | Inr fileSize \<Rightarrow>
               (case newExecutor w of
                  Some err \<Rightarrow>
                    (Some (Wrapf ''creating executor'' err),
                     [OpenFile, StatFile, StartTarWriter, NewSPDYExecutor, CloseFile])
                | None \<Rightarrow>
                    (case execStream w of
                       Some err \<Rightarrow>
                         (Some (Wrapf ''streaming to pod'' err),
                          [OpenFile, StatFile, StartTarWriter, NewSPDYExecutor,
                           StreamWithContext, CloseFile])
                     | None \<Rightarrow>
                         (case tarWriter w of
                            Some tarErr \<Rightarrow>
                              (Some tarErr,
                               [OpenFile, StatFile, StartTarWriter, NewSPDYExecutor,
                                StreamWithContext, ReceiveErrChan, CloseFile])
                          | None \<Rightarrow>
                              (None,
                               [OpenFile, StatFile, StartTarWriter, NewSPDYExecutor,
                                StreamWithContext, ReceiveErrChan, CloseFile]))))))"

section \<open>The import job\<close>

definition dataVolumeObject :: "GoldenImageUploader \<Rightarrow> jval" where
  "dataVolumeObject u =
     JMap [(''apiVersion'', JStr ''cdi.kubevirt.io/v1beta1''),
           (''kind'', JStr ''DataVolume''),
           (''metadata'',
            JMap [(''name'', JStr (pvcName u)),
                  (''namespace'', JStr (namespace u)),
                  (''annotations'',
                   JMap [(''cdi.kubevirt.io/storage.bind.immediate.requested'', JStr [])])]),
           (''spec'',
            JMap [(''source'',
                   JMap [(''http'',
                          JMap [(''url'',
                                 JStr (''http://'' @ serverSvcName @ ''.'' @ namespace u
                                       @ ''.svc.cluster.local:80/disk.qcow2''))])]),
                  (''storage'',
                   JMap ([(''resources'',
                           JMap [(''requests'', JMap [(''storage'', JStr (pvcSize u))])])]
                         @ (if storageClass u \<noteq> []
                            then [(''storageClassName'', JStr (storageClass u))]
                            else [])))])]"

definition createDataVolume :: "GoldenImageUploader \<Rightarrow> world \<Rightarrow> error option \<times> event list" where
  "createDataVolume u w =
     (case dvCreate w of
        Some err \<Rightarrow>
          (Some (Wrapf ''creating DataVolume'' err), [CreateDataVolume (dataVolumeObject u)])
      | None \<Rightarrow> (None, [CreateDataVolume (dataVolumeObject u)]))"

text \<open>
  The condition of the wait. Its state is \<^verbatim>\<open>lastPhase\<close>, the variable the closure
  captures; a failed assertion \<^verbatim>\<open>phase, _ := status["phase"].(string)\<close> leaves the
  empty string.
\<close>

definition dataVolumeCondition ::
  "string \<Rightarrow> error + object \<Rightarrow> (bool \<times> error option) \<times> string \<times> event list" where
  "dataVolumeCondition lastPhase r =
     (case r of
        Inl err \<Rightarrow> ((False, Some (Wrapf ''getting DataVolume'' err)), lastPhase, [GetDataVolume])
      | Inr dv \<Rightarrow>
          (case asMap (map_of dv ''status'') of
             None \<Rightarrow> ((False, None), lastPhase, [GetDataVolume])
           | Some status \<Rightarrow>
               (let phase = (case asString (map_of status ''phase'') of Some p \<Rightarrow> p | None \<Rightarrow> []);
                    notice = (if phase \<noteq> lastPhase
                              then [Println (''DataVolume phase: '' @ phase)] else [])
                in if phase = DVPhaseFailed
                   then ((False,
                          Some (DataVolumeFailed
                                  (case asList (map_of status ''conditions'') of
                                     Some conditions \<Rightarrow> conditions
                                   | None \<Rightarrow> []))),
                         phase, GetDataVolume # notice)
                   else ((phase = DVPhaseSucceeded, None), phase, GetDataVolume # notice))))"

definition waitForDataVolume :: "world \<Rightarrow> error option \<times> event list" where
  "waitForDataVolume w = PollUntilContextTimeout dataVolumeCondition [] (dvGets w)"

section \<open>The HTTP-source workflow\<close>

text \<open>
  \<^verbatim>\<open>defer u.cleanup(ctx)\<close> is registered after the check of
  \<^verbatim>\<open>createServerPod\<close>'s error: the return before it runs no cleanup, every return
  after it runs the cleanup once, after the result is fixed.
\<close>

definition uploadViaHTTPSource :: "GoldenImageUploader \<Rightarrow> world \<Rightarrow> error option \<times> event list" where
  "uploadViaHTTPSource u w =
     (case createServerPod w of
        (Some err, t0) \<Rightarrow> (Some (Wrapf ''creating server pod'' err), t0)
      | (None, t0) \<Rightarrow>
          (case
             (case createServerService w of
                (Some err, t1) \<Rightarrow> (Some (Wrapf ''creating server service'' err), t1)
              | (None, t1) \<Rightarrow>
                  (case streamImageToPod w of
                     (Some err, t2) \<Rightarrow> (Some (Wrapf ''streaming image'' err), t1 @ t2)
                   | (None, t2) \<Rightarrow>
                       (case createDataVolume u w of
                          (Some err, t3) \<Rightarrow>
                            (Some (Wrapf ''creating DataVolume'' err), t1 @ t2 @ t3)
                        | (None, t3) \<Rightarrow>
                            (case waitForDataVolume w of
                               (Some err, t4) \<Rightarrow>
                                 (Some (Wrapf ''waiting for DataVolume'' err), t1 @ t2 @ t3 @ t4)
                             | (None, t4) \<Rightarrow> (None, t1 @ t2 @ t3 @ t4)))))
           of (result, t) \<Rightarrow> (result, t0 @ t @ cleanup w)))"

definition uploadViaProxy :: "error option \<times> event list" where
  "uploadViaProxy =
     (Some (Generic
        ''standard upload flow not implemented - use virtctl image-upload for non-UDN namespaces''),
      [])"

definition Upload ::
  "(string \<Rightarrow> bool) \<Rightarrow> (string \<Rightarrow> bool) \<Rightarrow> GoldenImageUploader \<Rightarrow> world
     \<Rightarrow> error option \<times> event list" where
  "Upload vk vv u w =
     (case osStat w of
        Inl err \<Rightarrow> (Some (Wrapf ''local image not found'' err), [])
      | Inr fileSize \<Rightarrow>
          (case namespaceHasPrimaryUDN vk vv w of
             ((hasUDN, Some err), t) \<Rightarrow> (Some (Wrapf ''detecting UDN'' err), t)
           | ((hasUDN, None), t) \<Rightarrow>
               if hasUDN
               then (case uploadViaHTTPSource u w of (r, t') \<Rightarrow> (r, t @ t'))
               else (case uploadViaProxy of (r, t') \<Rightarrow> (r, t @ t'))))"

text \<open>How often each of the cleanup's two deletions occurs in a trace.\<close>

definition serviceDeletions :: "event list \<Rightarrow> nat" where
  "serviceDeletions t = count_list t DeleteService"

definition podDeletions :: "event list \<Rightarrow> nat" where
  "podDeletions t = count_list t DeletePod"

section \<open>GetPVCSize\<close>

text \<open>
  A file size is an int64 that is not negative, and the float64 values the computation
  meets are finite and not negative: \<open>(m, e)\<close> stands for \<open>m * 2 ^ e\<close>. \<open>roundFloat64\<close> rounds to 53 significant bits, ties to even, as
  every float64 operation and conversion does; for a file size below \<open>2 ^ 63\<close> no
  result leaves the range of the normal numbers.
\<close>

type_synonym float64 = "int \<times> int"

function bitLen :: "int \<Rightarrow> nat" where
  "bitLen n = (if n \<le> 0 then 0 else Suc (bitLen (n div 2)))"
  by pat_completeness auto
termination
  by (relation "measure nat") auto

declare bitLen.simps [simp del]

definition roundFloat64 :: "float64 \<Rightarrow> float64" where
  "roundFloat64 x =
     (case x of
        (m, e) \<Rightarrow>
          (let b = bitLen m
           in if b \<le> 53 then (m, e)
              else
                (let s = b - 53;
                     q = m div 2 ^ s;
                     r = m mod 2 ^ s;
                     half = 2 ^ (s - 1)
                 in ((if half < r \<or> (r = half \<and> odd q) then q + 1 else q), e + int s))))"

definition float64OfInt64 :: "int \<Rightarrow> float64" where
  "float64OfInt64 n = roundFloat64 (n, 0)"

text \<open>The float64 constant \<^verbatim>\<open>1.2\<close>: \<open>5404319552844595 / 2 ^ 52\<close>.\<close>

definition onePointTwo :: float64 where
  "onePointTwo = (5404319552844595, - 52)"

definition float64Mul :: "float64 \<Rightarrow> float64 \<Rightarrow> float64" where
  "float64Mul x y = roundFloat64 (fst x * fst y, snd x + snd y)"

text \<open>Division by \<^verbatim>\<open>1024*1024*1024\<close>, a power of two: exact.\<close>

definition float64DivGi :: "float64 \<Rightarrow> float64" where
  "float64DivGi x = (fst x, snd x - 30)"

text \<open>The conversion \<^verbatim>\<open>int64(x)\<close> truncates.\<close>

definition int64OfFloat64 :: "float64 \<Rightarrow> int" where
  "int64OfFloat64 x =
     (if 0 \<le> snd x then fst x * 2 ^ nat (snd x) else fst x div 2 ^ nat (- snd x))"

definition digitChar :: "int \<Rightarrow> char" where
  "digitChar d = ''0123456789'' ! nat d"

text \<open>The verb \<^verbatim>\<open>%d\<close>.\<close>

function formatDecimal :: "int \<Rightarrow> string" where
  "formatDecimal n =
     (if n < 0 then CHR ''-'' # formatDecimal (- n)
      else if n < 10 then [digitChar n]
      else formatDecimal (n div 10) @ [digitChar (n mod 10)])"
  by pat_completeness auto
termination
  by (relation "measure (\<lambda>n. if n < 0 then nat (- n) + 1 else nat n)") auto

declare formatDecimal.simps [simp del]

definition GetPVCSize :: "error + int \<Rightarrow> error + string" where
  "GetPVCSize stat =
     (case stat of
        Inl err \<Rightarrow> Inl err
      | Inr fileSize \<Rightarrow>
          (let sizeBytes = float64Mul (float64OfInt64 fileSize) onePointTwo;
               sizeGi = int64OfFloat64 (float64DivGi sizeBytes) + 1
           in Inr (formatDecimal sizeGi @ ''Gi'')))"

text \<open>
  The size the claim describes: the file size times 1.2, rounded up to whole
  gibibytes.
\<close>

definition roundedUpGi :: "int \<Rightarrow> int" where
  "roundedUpGi fileSize = (fileSize * 12 + (10 * 2 ^ 30 - 1)) div (10 * 2 ^ 30)"

section \<open>Notions of the claims\<close>

text \<open>
  A network definition holds the Primary role at one of the four role paths,
  read from the definition's object.
\<close>

definition definitionPrimary :: "object \<Rightarrow> bool" where
  "definitionPrimary d =
     (holdsPrimary d [''spec'', ''network'', ''layer2'', ''role'']
      \<or> holdsPrimary d [''spec'', ''network'', ''layer3'', ''role'']
      \<or> holdsPrimary d [''spec'', ''layer2'', ''role'']
      \<or> holdsPrimary d [''spec'', ''layer3'', ''role''])"

text \<open>The selector of a cluster-scoped definition matches the labels.\<close>

definition definitionSelects ::
  "(string \<Rightarrow> bool) \<Rightarrow> (string \<Rightarrow> bool) \<Rightarrow> (string \<rightharpoonup> string) \<Rightarrow> object \<Rightarrow> bool" where
  "definitionSelects vk vv nsLabels d =
     (case asMap (map_of d ''spec'') of
        None \<Rightarrow> False
      | Some spec \<Rightarrow> selectorMatchesNamespace vk vv spec nsLabels)"

text \<open>
  What one poll of the import job observes: no status, or a phase (the empty string
  when the status holds no string under \<^verbatim>\<open>phase\<close>), and the raw condition list.
\<close>

definition statusAbsent :: "error + object \<Rightarrow> bool" where
  "statusAbsent r =
     (case r of Inl err \<Rightarrow> False | Inr dv \<Rightarrow> asMap (map_of dv ''status'') = None)"

definition observedPhase :: "error + object \<Rightarrow> string option" where
  "observedPhase r =
     (case r of
        Inl err \<Rightarrow> None
      | Inr dv \<Rightarrow>
          (case asMap (map_of dv ''status'') of
             None \<Rightarrow> None
           | Some status \<Rightarrow>
               Some (case asString (map_of status ''phase'') of Some p \<Rightarrow> p | None \<Rightarrow> [])))"

definition rawConditions :: "error + object \<Rightarrow> jval list" where
  "rawConditions r =
     (case r of
        Inl err \<Rightarrow> []
      | Inr dv \<Rightarrow>
          (case asMap (map_of dv ''status'') of
             None \<Rightarrow> []
           | Some status \<Rightarrow>
               (case asList (map_of status ''conditions'') of
                  Some conditions \<Rightarrow> conditions
                | None \<Rightarrow> [])))"

text \<open>A poll that is not terminal: the status is absent, or the phase is neither
  \<^verbatim>\<open>Succeeded\<close> nor \<^verbatim>\<open>Failed\<close>.\<close>

definition nonTerminal :: "error + object \<Rightarrow> bool" where
  "nonTerminal r =
     (statusAbsent r
      \<or> (case observedPhase r of
            None \<Rightarrow> False
          | Some p \<Rightarrow> p \<noteq> ''Succeeded'' \<and> p \<noteq> ''Failed''))"

definition polls :: "event list \<Rightarrow> nat" where
  "polls t = count_list t GetDataVolume"

text \<open>The run reaches the exec session: the file opens, its size is read, the executor
  is created.\<close>

definition reachesExec :: "world \<Rightarrow> bool" where
  "reachesExec w =
     (fileOpen w = None \<and> (case fileStat w of Inl err \<Rightarrow> False | Inr fileSize \<Rightarrow> True)
      \<and> newExecutor w = None)"

text \<open>A trace without the cleanup's deletions.\<close>

definition noDeletion :: "event list \<Rightarrow> bool" where
  "noDeletion t = (DeleteService \<notin> set t \<and> DeletePod \<notin> set t)"

section \<open>Example inputs\<close>

definition markerLabel :: string where
  "markerLabel = ''k8s.ovn.org/primary-user-defined-network''"

definition dvWithPhase :: "string \<Rightarrow> object" where
  "dvWithPhase p = [(''status'', JMap [(''phase'', JStr p)])]"

definition dvFailed :: object where
  "dvFailed =
     [(''status'',
       JMap [(''phase'', JStr ''Failed''),
             (''conditions'', JList [JMap [(''reason'', JStr ''ImportFailed'')]])])]"

definition primaryUDN :: object where
  "primaryUDN = [(''spec'', JMap [(''layer2'', JMap [(''role'', JStr ''Primary'')])])]"

definition secondaryUDN :: object where
  "secondaryUDN = [(''spec'', JMap [(''layer3'', JMap [(''role'', JStr ''Secondary'')])])]"

definition existsExpression :: "jval list \<Rightarrow> jval" where
  "existsExpression vals =
     JMap [(''key'', JStr ''env''), (''operator'', JStr ''Exists''), (''values'', JList vals)]"

definition cudnSpec :: "jval list \<Rightarrow> object" where
  "cudnSpec vals =
     [(''namespaceSelector'', JMap [(''matchExpressions'', JList [existsExpression vals])]),
      (''network'', JMap [(''layer3'', JMap [(''role'', JStr ''Primary'')])])]"

definition primaryCUDN :: object where
  "primaryCUDN = [(''spec'', JMap (cudnSpec []))]"

definition exampleUploader :: GoldenImageUploader where
  "exampleUploader =
     \<lparr>namespace = ''green-namespace'', pvcName = ''golden-image'', pvcSize = ''30Gi'',
      storageClass = ''gp3-csi''\<rparr>"

text \<open>A run in which every step succeeds; the service is already gone at cleanup.\<close>

definition exampleWorld :: world where
  "exampleWorld =
     \<lparr>osStat = Inr 100,
      nsGet = Inr [markerLabel \<mapsto> [], ''env'' \<mapsto> ''prod''],
      cudnList = Inr [primaryCUDN],
      udnList = Inr [secondaryUDN],
      podCreate = None,
      podGets = [Inr [], Inr [(''Ready'', ''True'')]],
      svcCreate = None,
      fileOpen = None,
      fileStat = Inr 100,
      tarWriteHeader = None,
      ioCopy = Inr 100,
      newExecutor = None,
      execStream = None,
      dvCreate = None,
      dvGets = [Inr [], Inr (dvWithPhase ''ImportScheduled''),
                Inr (dvWithPhase ''ImportInProgress''), Inr (dvWithPhase ''Succeeded'')],
      svcDelete = Some StatusNotFound,
      podDelete = None\<rparr>"

section \<open>Primary-role classification\<close>

lemma layerIsPrimary_path: "layerIsPrimary m l = holdsPrimary m [l, ''role'']"
proof (cases "map_of m l")
  case None
  then show ?thesis by (simp add: layerIsPrimary_def holdsPrimary_def)
next
  case (Some v)
  show ?thesis
  proof (cases v)
    case (JMap l2)
    show ?thesis
    proof (cases "map_of l2 ''role''")
      case None
      with Some JMap show ?thesis by (simp add: layerIsPrimary_def holdsPrimary_def)
    next
      case (Some r)
      with \<open>map_of m l = Some v\<close> JMap show ?thesis
        by (cases r) (auto simp add: layerIsPrimary_def holdsPrimary_def)
    qed
  qed (use Some in \<open>simp_all add: layerIsPrimary_def holdsPrimary_def\<close>)
qed

lemma holdsPrimary_step:
  "ks \<noteq> [] \<Longrightarrow> holdsPrimary m (k # ks) =
     (case asMap (map_of m k) of None \<Rightarrow> False | Some m' \<Rightarrow> holdsPrimary m' ks)"
proof (cases "map_of m k")
  case None
  then show ?thesis by (simp add: holdsPrimary_def)
next
  case (Some v)
  assume "ks \<noteq> []"
  with Some show ?thesis
    by (cases v; cases ks) (simp_all add: holdsPrimary_def)
qed

lemma hasPrimaryRole_paths:
  "hasPrimaryRole spec =
     (holdsPrimary spec [''network'', ''layer2'', ''role'']
      \<or> holdsPrimary spec [''network'', ''layer3'', ''role'']
      \<or> holdsPrimary spec [''layer2'', ''role'']
      \<or> holdsPrimary spec [''layer3'', ''role''])"
  by (auto simp add: hasPrimaryRole_def layerIsPrimary_path holdsPrimary_step
      split: option.splits)

lemma definitionPrimary_spec:
  "definitionPrimary d =
     (case asMap (map_of d ''spec'') of None \<Rightarrow> False | Some spec \<Rightarrow> hasPrimaryRole spec)"
  by (simp add: definitionPrimary_def holdsPrimary_step hasPrimaryRole_paths split: option.splits)

lemma udnLoop_iff: "udnLoop items = (\<exists>d \<in> set items. definitionPrimary d)"
  by (induction items) (auto simp add: definitionPrimary_spec split: option.splits)

lemma cudnLoop_iff:
  "cudnLoop vk vv ls items =
     (\<exists>d \<in> set items. definitionPrimary d \<and> definitionSelects vk vv ls d)"
  by (induction items)
     (auto simp add: definitionPrimary_spec definitionSelects_def split: option.splits)

text \<open>
  Claim C8. \<^verbatim>\<open>hasPrimaryRole\<close> holds exactly when one of the four role paths holds
  the string \<^verbatim>\<open>Primary\<close>; the lower-case \<^verbatim>\<open>primary\<close> does not qualify. The loops
  over the namespace-scoped and the cluster-scoped definitions answer true exactly when
  some definition of the list holds the role at one of the four paths below its
  \<^verbatim>\<open>spec\<close> (and, for a cluster-scoped one, its selector matches): a definition whose
  \<^verbatim>\<open>spec\<close> is not a key/value map, or whose four role fields hold no string, is
  never such a definition.
\<close>

theorem primary_role_classification:
  "hasPrimaryRole spec =
     (holdsPrimary spec [''network'', ''layer2'', ''role'']
      \<or> holdsPrimary spec [''network'', ''layer3'', ''role'']
      \<or> holdsPrimary spec [''layer2'', ''role'']
      \<or> holdsPrimary spec [''layer3'', ''role''])
   \<and> \<not> hasPrimaryRole [(''layer2'', JMap [(''role'', JStr ''primary'')])]
   \<and> udnLoop udns = (\<exists>d \<in> set udns. definitionPrimary d)
   \<and> cudnLoop vk vv ls cudns =
       (\<exists>d \<in> set cudns. definitionPrimary d \<and> definitionSelects vk vv ls d)
   \<and> (asMap (map_of d ''spec'') = None \<longrightarrow> \<not> definitionPrimary d)
   \<and> (asString (lookupPath [''network'', ''layer2'', ''role''] (JMap spec)) = None
      \<and> asString (lookupPath [''network'', ''layer3'', ''role''] (JMap spec)) = None
      \<and> asString (lookupPath [''layer2'', ''role''] (JMap spec)) = None
      \<and> asString (lookupPath [''layer3'', ''role''] (JMap spec)) = None
      \<longrightarrow> \<not> hasPrimaryRole spec)"
proof -
  have nonstring: "asString (lookupPath p (JMap spec)) = None \<Longrightarrow> \<not> holdsPrimary spec p" for p
    by (auto simp add: holdsPrimary_def)
  have lower: "\<not> hasPrimaryRole [(''layer2'', JMap [(''role'', JStr ''primary'')])]"
    by (simp add: hasPrimaryRole_def layerIsPrimary_def)
  have nomap: "asMap (map_of d ''spec'') = None \<longrightarrow> \<not> definitionPrimary d"
    by (simp add: definitionPrimary_spec)
  show ?thesis
    using hasPrimaryRole_paths [of spec] lower udnLoop_iff [of udns]
      cudnLoop_iff [of vk vv ls cudns] nomap nonstring
    by blast
qed

theorem primary_role_classification_witness:
  "\<not> definitionPrimary [(''spec'', JStr ''Primary'')]
   \<and> \<not> hasPrimaryRole [(''layer2'', JMap [(''role'', JList [JStr ''Primary''])])]"
proof -
  let ?s = "[(''layer2'', JMap [(''role'', JList [JStr ''Primary''])])]"
  let ?d = "[(''spec'', JStr ''Primary'')]"
  note t = primary_role_classification [of ?s "[]" acceptAll acceptAll Map.empty "[]" ?d]
  from t have "asMap (map_of ?d ''spec'') = None \<longrightarrow> \<not> definitionPrimary ?d"
    by blast
  then have a: "\<not> definitionPrimary ?d" by simp
  from t have
    "asString (lookupPath [''network'', ''layer2'', ''role''] (JMap ?s)) = None
      \<and> asString (lookupPath [''network'', ''layer3'', ''role''] (JMap ?s)) = None
      \<and> asString (lookupPath [''layer2'', ''role''] (JMap ?s)) = None
      \<and> asString (lookupPath [''layer3'', ''role''] (JMap ?s)) = None
      \<longrightarrow> \<not> hasPrimaryRole ?s"
    by blast
  then have b: "\<not> hasPrimaryRole ?s" by simp
  from a b show ?thesis by simp
qed

section \<open>The detector\<close>

text \<open>
  Claim C6. When the namespace is read and its labels lack the key
  \<^verbatim>\<open>k8s.ovn.org/primary-user-defined-network\<close>, the detector returns false and no
  error, and the only call it makes is the read of the namespace: neither list of
  network definitions is asked for, whatever the cluster holds.
\<close>

theorem detector_without_marker:
  "nsGet w = Inr nsLabels \<Longrightarrow> nsLabels ''k8s.ovn.org/primary-user-defined-network'' = None
   \<Longrightarrow> namespaceHasPrimaryUDN vk vv w = ((False, None), [GetNamespace])"
  by (simp add: namespaceHasPrimaryUDN_def)

theorem detector_without_marker_witness:
  "namespaceHasPrimaryUDN acceptAll acceptAll (exampleWorld\<lparr>nsGet := Inr [''env'' \<mapsto> ''prod'']\<rparr>)
     = ((False, None), [GetNamespace])
   \<and> namespaceHasPrimaryUDN acceptAll acceptAll exampleWorld = ((True, None), [GetNamespace, ListCUDN])"
proof -
  have "namespaceHasPrimaryUDN acceptAll acceptAll (exampleWorld\<lparr>nsGet := Inr [''env'' \<mapsto> ''prod'']\<rparr>)
     = ((False, None), [GetNamespace])"
    by (rule detector_without_marker [where nsLabels = "[''env'' \<mapsto> ''prod'']"]) simp_all
  moreover have "namespaceHasPrimaryUDN acceptAll acceptAll exampleWorld = ((True, None), [GetNamespace, ListCUDN])"
    by (simp add: namespaceHasPrimaryUDN_def exampleWorld_def markerLabel_def primaryCUDN_def
        cudnSpec_def existsExpression_def hasPrimaryRole_def layerIsPrimary_def
        selectorMatchesNamespace_def labelSelectorMatches_def parseLabelSelector_def
        parseRequirement_def LabelSelectorAsSelector_def operatorOf_def NewRequirement_def
        acceptAll_def selectorMatches_def requirementMatches_def)
  ultimately show ?thesis by simp
qed

text \<open>
  Claim C7. For the same namespace answer, two lists of cluster-scoped definitions
  with the same elements in any order, and two such lists of namespace-scoped
  definitions, give the same result of the detector: the same boolean, the same error
  and the same calls.
\<close>

theorem detector_order_independent:
  "mset cudns = mset cudns' \<Longrightarrow> mset udns = mset udns'
   \<Longrightarrow> namespaceHasPrimaryUDN vk vv (w\<lparr>cudnList := Inr cudns, udnList := Inr udns\<rparr>)
       = namespaceHasPrimaryUDN vk vv (w\<lparr>cudnList := Inr cudns', udnList := Inr udns'\<rparr>)"
proof -
  assume c: "mset cudns = mset cudns'" and u: "mset udns = mset udns'"
  have "set cudns = set cudns'" using c by (rule mset_eq_setD)
  then have c': "cudnLoop vk vv ls cudns = cudnLoop vk vv ls cudns'" for ls
    by (simp add: cudnLoop_iff)
  have "set udns = set udns'" using u by (rule mset_eq_setD)
  then have u': "udnLoop udns = udnLoop udns'"
    by (simp add: udnLoop_iff)
  show ?thesis
    by (simp add: namespaceHasPrimaryUDN_def checkNamespaceScopedUDN_def c' u' split: sum.splits)
qed

theorem detector_order_independent_witness:
  "namespaceHasPrimaryUDN acceptAll acceptAll
     (exampleWorld\<lparr>cudnList := Inr [secondaryUDN, primaryUDN], udnList := Inr [secondaryUDN, primaryUDN]\<rparr>)
   = namespaceHasPrimaryUDN acceptAll acceptAll
     (exampleWorld\<lparr>cudnList := Inr [primaryUDN, secondaryUDN], udnList := Inr [primaryUDN, secondaryUDN]\<rparr>)
   \<and> namespaceHasPrimaryUDN acceptAll acceptAll
     (exampleWorld\<lparr>cudnList := Inr [primaryUDN, secondaryUDN], udnList := Inr [primaryUDN, secondaryUDN]\<rparr>)
   = ((True, None), [GetNamespace, ListCUDN, ListUDN])"
proof -
  have m: "mset [secondaryUDN, primaryUDN] = mset [primaryUDN, secondaryUDN]"
    by simp
  have v: "namespaceHasPrimaryUDN acceptAll acceptAll
     (exampleWorld\<lparr>cudnList := Inr [primaryUDN, secondaryUDN], udnList := Inr [primaryUDN, secondaryUDN]\<rparr>)
   = ((True, None), [GetNamespace, ListCUDN, ListUDN])"
    by (simp add: namespaceHasPrimaryUDN_def checkNamespaceScopedUDN_def exampleWorld_def
        markerLabel_def primaryUDN_def secondaryUDN_def hasPrimaryRole_def layerIsPrimary_def
        selectorMatchesNamespace_def)
  from detector_order_independent [OF m m, of acceptAll acceptAll exampleWorld] v
  show ?thesis by simp
qed

section \<open>The recommended volume size\<close>

text \<open>
  Claim C2, at a file of 5 GiB (5368709120 bytes). The size times 1.2 is 6 GiB, a whole
  number of gibibytes, and rounded up it is 6; \<^verbatim>\<open>GetPVCSize\<close> returns 7Gi, since it
  adds one to the truncated quotient. An empty file gets 1Gi.
\<close>

theorem GetPVCSize_exact_multiple:
  "GetPVCSize (Inr 5368709120) = Inr ''7Gi''
   \<and> roundedUpGi 5368709120 = 6
   \<and> 5368709120 * 12 = (6 * 2 ^ 30) * (10 :: int)
   \<and> GetPVCSize (Inr 0) = Inr ''1Gi''
   \<and> roundedUpGi 0 = 0"
proof -
  have a: "GetPVCSize (Inr 5368709120) = Inr ''7Gi''" by code_simp
  have b: "GetPVCSize (Inr 0) = Inr ''1Gi''" by code_simp
  have c: "roundedUpGi 5368709120 = 6" "roundedUpGi 0 = 0"
    by (simp_all add: roundedUpGi_def)
  have d: "5368709120 * 12 = (6 * 2 ^ 30) * (10 :: int)" by simp
  from a b c d show ?thesis by simp
qed

section \<open>Selectors with Exists and DoesNotExist requirements\<close>

lemma equalsRequirements_matches:
  "(case equalsRequirements vk vv kvs of
      Inl e \<Rightarrow> False
    | Inr rs \<Rightarrow> list_all (\<lambda>r. requirementMatches r ls) rs)
   = list_all (equalityHolds vk vv ls) kvs"
  by (induction kvs) (auto simp add: equalityHolds_def split: sum.splits)

lemma expressionRequirements_step:
  "(case expressionRequirements vk vv (e # es) of
      Inl err \<Rightarrow> False
    | Inr rs \<Rightarrow> list_all P rs)
   = ((case operatorOf (Operator e) of
         Inl err \<Rightarrow> False
       | Inr op \<Rightarrow>
           (case NewRequirement vk vv (Key e) op (Values e) of
              Inl err \<Rightarrow> False
            | Inr r \<Rightarrow> P r))
      \<and> (case expressionRequirements vk vv es of
            Inl err \<Rightarrow> False
          | Inr rs \<Rightarrow> list_all P rs))"
  by (auto split: sum.splits)

lemma expressionRequirements_matches:
  "(case expressionRequirements vk vv es of
      Inl e \<Rightarrow> False
    | Inr rs \<Rightarrow> list_all (\<lambda>r. requirementMatches r ls) rs)
   = list_all (expressionHolds vk vv ls) es"
proof (induction es)
  case Nil
  show ?case by simp
next
  case (Cons e es)
  show ?case
    unfolding expressionRequirements_step Cons.IH
    by (simp add: expressionHolds_def [of vk vv ls e])
qed

lemma labelSelectorMatches_iff:
  "labelSelectorMatches vk vv ps ls =
     (list_all (equalityHolds vk vv ls) (MatchLabels ps)
      \<and> list_all (expressionHolds vk vv ls) (MatchExpressions ps))"
proof (cases "MatchLabels ps = [] \<and> MatchExpressions ps = []")
  case True
  then show ?thesis
    by (simp add: labelSelectorMatches_def LabelSelectorAsSelector_def selectorMatches_def)
next
  case False
  then have "labelSelectorMatches vk vv ps ls =
     (case equalsRequirements vk vv (MatchLabels ps) of
        Inl e \<Rightarrow> False
      | Inr eqs \<Rightarrow>
          (case expressionRequirements vk vv (MatchExpressions ps) of
             Inl e \<Rightarrow> False
           | Inr exprs \<Rightarrow>
               list_all (\<lambda>r. requirementMatches r ls) eqs
               \<and> list_all (\<lambda>r. requirementMatches r ls) exprs))"
    by (auto simp add: labelSelectorMatches_def LabelSelectorAsSelector_def selectorMatches_def
        split: sum.splits)
  also have "\<dots> =
     ((case equalsRequirements vk vv (MatchLabels ps) of
        Inl e \<Rightarrow> False
      | Inr eqs \<Rightarrow> list_all (\<lambda>r. requirementMatches r ls) eqs)
      \<and> (case expressionRequirements vk vv (MatchExpressions ps) of
             Inl e \<Rightarrow> False
           | Inr exprs \<Rightarrow> list_all (\<lambda>r. requirementMatches r ls) exprs))"
    by (simp split: sum.splits)
  finally show ?thesis
    by (simp only: equalsRequirements_matches expressionRequirements_matches)
qed

lemma expressionHolds_Exists:
  "Operator expr = ''Exists'' \<Longrightarrow>
   expressionHolds vk vv ls expr = (Values expr = [] \<and> vk (Key expr) \<and> ls (Key expr) \<noteq> None)"
  by (auto simp add: expressionHolds_def operatorOf_def NewRequirement_def requirementMatches_def
      Let_def)

lemma expressionHolds_DoesNotExist:
  "Operator expr = ''DoesNotExist'' \<Longrightarrow>
   expressionHolds vk vv ls expr = (Values expr = [] \<and> vk (Key expr) \<and> ls (Key expr) = None)"
  by (auto simp add: expressionHolds_def operatorOf_def NewRequirement_def requirementMatches_def
      Let_def)

text \<open>
  Claim C3, as stated, fails: a selector whose only requirement is
  \<^verbatim>\<open>{key: env, operator: Exists, values: [prod]}\<close> does not match a namespace that
  carries the label \<^verbatim>\<open>env\<close>, even when every key and value passes the syntax
  checks. The conversion of the selector rejects an \<^verbatim>\<open>Exists\<close> requirement with a
  value, and \<^verbatim>\<open>selectorMatchesNamespace\<close> answers false on a failed conversion.
\<close>

theorem exists_requirement_counterexample:
  "\<not> selectorMatchesNamespace acceptAll acceptAll
       [(''namespaceSelector'',
         JMap [(''matchExpressions'',
                JList [JMap [(''key'', JStr ''env''), (''operator'', JStr ''Exists''),
                             (''values'', JList [JStr ''prod''])]])])]
       [''env'' \<mapsto> ''prod'']"
  by (simp add: selectorMatchesNamespace_def labelSelectorMatches_def parseLabelSelector_def
      parseRequirement_def LabelSelectorAsSelector_def operatorOf_def NewRequirement_def
      acceptAll_def)

text \<open>
  Claim C3, amended. For a selector that holds an \<^verbatim>\<open>Exists\<close> or
  \<^verbatim>\<open>DoesNotExist\<close> requirement, \<^verbatim>\<open>selectorMatchesNamespace\<close> answers true exactly
  when the requirement's value list (the strings of its \<^verbatim>\<open>values\<close>) is empty, its
  key passes the key check, the key is present (respectively absent) in the labels, and
  the rest of the selector matches. So with an empty value list the requirement tests
  key presence only, and with a value in the list the whole selector matches nothing.
\<close>

theorem exists_requirement_amended:
  assumes "asMap (map_of spec ''namespaceSelector'') = Some nsSelector"
    and "MatchExpressions (parseLabelSelector nsSelector) = xs @ expr # ys"
    and "Operator expr = ''Exists'' \<or> Operator expr = ''DoesNotExist''"
  shows "selectorMatchesNamespace vk vv spec nsLabels =
     (Values expr = [] \<and> vk (Key expr)
      \<and> (if Operator expr = ''Exists'' then nsLabels (Key expr) \<noteq> None
         else nsLabels (Key expr) = None)
      \<and> labelSelectorMatches vk vv
          ((parseLabelSelector nsSelector)\<lparr>MatchExpressions := xs @ ys\<rparr>) nsLabels)"
proof -
  have h: "expressionHolds vk vv nsLabels expr =
     (Values expr = [] \<and> vk (Key expr)
      \<and> (if Operator expr = ''Exists'' then nsLabels (Key expr) \<noteq> None
         else nsLabels (Key expr) = None))"
    using assms(3) expressionHolds_Exists [of expr vk vv nsLabels]
      expressionHolds_DoesNotExist [of expr vk vv nsLabels]
    by auto
  have "selectorMatchesNamespace vk vv spec nsLabels =
     labelSelectorMatches vk vv (parseLabelSelector nsSelector) nsLabels"
    using assms(1) by (simp add: selectorMatchesNamespace_def)
  also have "\<dots> =
     (expressionHolds vk vv nsLabels expr
      \<and> labelSelectorMatches vk vv
          ((parseLabelSelector nsSelector)\<lparr>MatchExpressions := xs @ ys\<rparr>) nsLabels)"
    using assms(2) by (auto simp add: labelSelectorMatches_iff)
  finally show ?thesis
    by (simp only: h conj_assoc)
qed

theorem exists_requirement_amended_witness:
  "selectorMatchesNamespace acceptAll acceptAll (cudnSpec []) [''env'' \<mapsto> ''prod'']
   \<and> \<not> selectorMatchesNamespace acceptAll acceptAll (cudnSpec [JStr ''qa'']) [''env'' \<mapsto> ''prod'']
   \<and> selectorMatchesNamespace acceptAll acceptAll (cudnSpec [JNum 1]) [''env'' \<mapsto> ''prod'']"
proof -
  let ?sel = "\<lambda>vals. [(''matchExpressions'', JList [existsExpression vals])]"
  let ?e = "\<lambda>vs. \<lparr>Key = ''env'', Operator = ''Exists'', Values = vs\<rparr>"
  have a: "asMap (map_of (cudnSpec vals) ''namespaceSelector'') = Some (?sel vals)" for vals
    by (simp add: cudnSpec_def)
  have b: "MatchExpressions (parseLabelSelector (?sel vals)) = [] @ ?e (parseValues vals) # []"
    for vals
    by (simp add: parseLabelSelector_def parseRequirement_def existsExpression_def)
  have c: "Operator (?e vs) = ''Exists'' \<or> Operator (?e vs) = ''DoesNotExist''" for vs
    by simp
  have r: "labelSelectorMatches acceptAll acceptAll
             ((parseLabelSelector (?sel vals))\<lparr>MatchExpressions := [] @ []\<rparr>) ls" for vals ls
    by (simp add: labelSelectorMatches_def LabelSelectorAsSelector_def parseLabelSelector_def
        selectorMatches_def)
  note t = exists_requirement_amended [OF a b c, where vk = acceptAll and vv = acceptAll
      and nsLabels = "[''env'' \<mapsto> ''prod'']"]
  show ?thesis
    using t [of "[]"] t [of "[JStr ''qa'']"] t [of "[JNum 1]"] r
    by (simp add: acceptAll_def)
qed

section \<open>The two sides of the push\<close>

text \<open>
  Claim C4, as stated, fails in a run where both sides fail. The exec session ends with
  an error and the archive writer fails to write the header: \<^verbatim>\<open>streamImageToPod\<close>
  checks the session's error first and returns it, so the writer's error is not what
  the function returns.
\<close>

theorem push_both_sides_fail_counterexample:
  "tarWriter (exampleWorld\<lparr>execStream := Some (Generic ''exit 2''),
                           tarWriteHeader := Some (Generic ''closed pipe'')\<rparr>)
     = Some (Wrapf ''writing tar header'' (Generic ''closed pipe''))
   \<and> fst (streamImageToPod (exampleWorld\<lparr>execStream := Some (Generic ''exit 2''),
                                           tarWriteHeader := Some (Generic ''closed pipe'')\<rparr>))
     = Some (Wrapf ''streaming to pod'' (Generic ''exit 2''))
   \<and> fst (streamImageToPod (exampleWorld\<lparr>execStream := Some (Generic ''exit 2''),
                                           tarWriteHeader := Some (Generic ''closed pipe'')\<rparr>))
     \<noteq> Some (Wrapf ''writing tar header'' (Generic ''closed pipe''))"
  by (simp add: streamImageToPod_def tarWriter_def exampleWorld_def)

text \<open>
  Claim C4, amended. \<^verbatim>\<open>streamImageToPod\<close> returns nil only if the exec session and
  the archive writer both succeeded. In a run that reaches the exec session: when the
  session ends without error, a failed header write or a failed copy of the writer is
  what the function returns, and with no failure of the writer it returns nil; when
  the session ends with an error, the function returns that error (wrapped as
  \<^verbatim>\<open>streaming to pod\<close>), also when the writer failed too.
\<close>

theorem push_needs_both_sides:
  "(fst (streamImageToPod w) = None \<longrightarrow> execStream w = None \<and> tarWriter w = None)
   \<and> (reachesExec w \<and> execStream w = None \<and> tarWriteHeader w = Some e
        \<longrightarrow> fst (streamImageToPod w) = Some (Wrapf ''writing tar header'' e))
   \<and> (reachesExec w \<and> execStream w = None \<and> tarWriteHeader w = None \<and> ioCopy w = Inl e
        \<longrightarrow> fst (streamImageToPod w) = Some (Wrapf ''copying file to tar'' e))
   \<and> (reachesExec w \<and> execStream w = None \<and> tarWriter w = None
        \<longrightarrow> fst (streamImageToPod w) = None)
   \<and> (reachesExec w \<and> execStream w = Some e
        \<longrightarrow> fst (streamImageToPod w) = Some (Wrapf ''streaming to pod'' e))"
  by (auto simp add: streamImageToPod_def reachesExec_def tarWriter_def
      split: option.splits sum.splits)

theorem push_needs_both_sides_witness:
  "fst (streamImageToPod (exampleWorld\<lparr>ioCopy := Inl (Generic ''short read'')\<rparr>))
     = Some (Wrapf ''copying file to tar'' (Generic ''short read''))
   \<and> fst (streamImageToPod (exampleWorld\<lparr>tarWriteHeader := Some (Generic ''closed pipe'')\<rparr>))
     = Some (Wrapf ''writing tar header'' (Generic ''closed pipe''))
   \<and> fst (streamImageToPod (exampleWorld\<lparr>execStream := Some (Generic ''exit 2'')\<rparr>))
     = Some (Wrapf ''streaming to pod'' (Generic ''exit 2''))
   \<and> fst (streamImageToPod exampleWorld) = None"
proof -
  have r1: "reachesExec (exampleWorld\<lparr>ioCopy := c\<rparr>)" for c
    by (simp add: reachesExec_def exampleWorld_def)
  have r2: "reachesExec (exampleWorld\<lparr>tarWriteHeader := h\<rparr>)" for h
    by (simp add: reachesExec_def exampleWorld_def)
  have r3: "reachesExec (exampleWorld\<lparr>execStream := x\<rparr>)" for x
    by (simp add: reachesExec_def exampleWorld_def)
  have r4: "reachesExec exampleWorld"
    by (simp add: reachesExec_def exampleWorld_def)
  have f: "execStream exampleWorld = None" "tarWriteHeader exampleWorld = None"
    "tarWriter exampleWorld = None"
    by (simp_all add: exampleWorld_def tarWriter_def)
  show ?thesis
    using push_needs_both_sides [of "exampleWorld\<lparr>ioCopy := Inl (Generic ''short read'')\<rparr>"
        "Generic ''short read''"]
      push_needs_both_sides [of "exampleWorld\<lparr>tarWriteHeader := Some (Generic ''closed pipe'')\<rparr>"
        "Generic ''closed pipe''"]
      push_needs_both_sides [of "exampleWorld\<lparr>execStream := Some (Generic ''exit 2'')\<rparr>"
        "Generic ''exit 2''"]
      push_needs_both_sides [of exampleWorld "Generic ''none''"]
      r1 r2 r3 r4 f
    by simp
qed

text \<open>
  Claim C9. When the exec session ends with an error, \<^verbatim>\<open>streamImageToPod\<close> returns
  that error (wrapped as \<^verbatim>\<open>streaming to pod\<close>), never receives from
  \<^verbatim>\<open>errChan\<close>, and its result does not depend on what the writer did. The channel
  is read exactly in the runs that reach the session and whose session succeeds, so a
  failure of the writer is what the function returns only in such a run.
\<close>

theorem exec_error_first:
  "(reachesExec w \<and> execStream w = Some e \<longrightarrow>
      fst (streamImageToPod w) = Some (Wrapf ''streaming to pod'' e)
      \<and> ReceiveErrChan \<notin> set (snd (streamImageToPod w))
      \<and> streamImageToPod (w\<lparr>tarWriteHeader := h, ioCopy := c\<rparr>) = streamImageToPod w)
   \<and> (ReceiveErrChan \<in> set (snd (streamImageToPod w)) \<longleftrightarrow> reachesExec w \<and> execStream w = None)
   \<and> (tarWriter w \<noteq> None \<and> fst (streamImageToPod w) = tarWriter w
        \<longrightarrow> reachesExec w \<and> execStream w = None)"
  by (auto simp add: streamImageToPod_def reachesExec_def tarWriter_def
      split: option.splits sum.splits)

theorem exec_error_first_witness:
  "streamImageToPod
     (exampleWorld\<lparr>execStream := Some (Generic ''exit 2''),
                   tarWriteHeader := Some (Generic ''closed pipe'')\<rparr>)
   = (Some (Wrapf ''streaming to pod'' (Generic ''exit 2'')),
      [OpenFile, StatFile, StartTarWriter, NewSPDYExecutor, StreamWithContext, CloseFile])
   \<and> ReceiveErrChan \<in> set (snd (streamImageToPod exampleWorld))"
proof -
  have ok: "reachesExec exampleWorld \<and> execStream exampleWorld = None"
    by (simp add: reachesExec_def exampleWorld_def)
  from exec_error_first [of exampleWorld "Generic ''none''"] ok
  have rc: "ReceiveErrChan \<in> set (snd (streamImageToPod exampleWorld))"
    by blast
  let ?w = "exampleWorld\<lparr>execStream := Some (Generic ''exit 2''),
                   tarWriteHeader := Some (Generic ''closed pipe'')\<rparr>"
  have r: "reachesExec ?w \<and> execStream ?w = Some (Generic ''exit 2'')"
    by (simp add: reachesExec_def exampleWorld_def)
  from exec_error_first [of ?w "Generic ''exit 2''"] r
  have a: "fst (streamImageToPod ?w) = Some (Wrapf ''streaming to pod'' (Generic ''exit 2''))"
    and b: "ReceiveErrChan \<notin> set (snd (streamImageToPod ?w))"
    by blast+
  have t: "snd (streamImageToPod ?w) =
      [OpenFile, StatFile, StartTarWriter, NewSPDYExecutor, StreamWithContext, CloseFile]"
    by (simp add: streamImageToPod_def exampleWorld_def)
  from a t rc show ?thesis by (simp add: prod_eq_iff)
qed

section \<open>Waiting for the import job\<close>

lemma condition_nonTerminal:
  "nonTerminal r \<Longrightarrow>
   \<exists>lp' evs. dataVolumeCondition lp r = ((False, None), lp', evs) \<and> polls evs = 1"
  by (auto simp add: nonTerminal_def statusAbsent_def observedPhase_def dataVolumeCondition_def
      DVPhaseFailed_def DVPhaseSucceeded_def polls_def Let_def split: sum.splits option.splits)

lemma condition_Succeeded:
  "observedPhase r = Some ''Succeeded'' \<Longrightarrow>
   \<exists>lp' evs. dataVolumeCondition lp r = ((True, None), lp', evs) \<and> polls evs = 1"
  by (auto simp add: observedPhase_def dataVolumeCondition_def
      DVPhaseFailed_def DVPhaseSucceeded_def polls_def Let_def split: sum.splits option.splits)

lemma condition_Failed:
  "observedPhase r = Some ''Failed'' \<Longrightarrow>
   \<exists>lp' evs. dataVolumeCondition lp r = ((False, Some (DataVolumeFailed (rawConditions r))), lp', evs)
      \<and> polls evs = 1"
  by (auto simp add: observedPhase_def rawConditions_def dataVolumeCondition_def
      DVPhaseFailed_def DVPhaseSucceeded_def polls_def Let_def split: sum.splits option.splits)

lemma condition_error:
  "\<exists>lp' evs. dataVolumeCondition lp (Inl e) = ((False, Some (Wrapf ''getting DataVolume'' e)), lp', evs)
      \<and> polls evs = 1"
  by (simp add: dataVolumeCondition_def polls_def)

lemma poll_continue:
  "condition s r = ((False, None), s', evs) \<Longrightarrow>
   PollUntilContextTimeout condition s (r # rs)
     = (fst (PollUntilContextTimeout condition s' rs),
        evs @ snd (PollUntilContextTimeout condition s' rs))"
  by (simp split: prod.splits)

lemma poll_stop:
  "condition s r = ((ok, err), s', evs) \<Longrightarrow> err \<noteq> None \<or> ok \<Longrightarrow>
   PollUntilContextTimeout condition s (r # rs) = (err, evs)"
  by auto

lemma polls_append: "polls (xs @ ys) = polls xs + polls ys"
  by (induction xs) (simp_all add: polls_def)

lemma poll_prefix:
  "list_all nonTerminal pre \<Longrightarrow>
   \<exists>lp'. fst (PollUntilContextTimeout dataVolumeCondition lp (pre @ rest))
            = fst (PollUntilContextTimeout dataVolumeCondition lp' rest)
        \<and> polls (snd (PollUntilContextTimeout dataVolumeCondition lp (pre @ rest)))
            = length pre + polls (snd (PollUntilContextTimeout dataVolumeCondition lp' rest))"
proof (induction pre arbitrary: lp)
  case Nil
  show ?case by auto
next
  case (Cons r pre)
  then have nt: "nonTerminal r" and rest: "list_all nonTerminal pre" by simp_all
  from condition_nonTerminal [OF nt, of lp] obtain lp1 evs
    where c: "dataVolumeCondition lp r = ((False, None), lp1, evs)" and p: "polls evs = 1"
    by blast
  from Cons.IH [OF rest, of lp1] obtain lp'
    where a: "fst (PollUntilContextTimeout dataVolumeCondition lp1 (pre @ rest))
            = fst (PollUntilContextTimeout dataVolumeCondition lp' rest)"
      and b: "polls (snd (PollUntilContextTimeout dataVolumeCondition lp1 (pre @ rest)))
            = length pre + polls (snd (PollUntilContextTimeout dataVolumeCondition lp' rest))"
    by blast
  have "fst (PollUntilContextTimeout dataVolumeCondition lp ((r # pre) @ rest))
          = fst (PollUntilContextTimeout dataVolumeCondition lp' rest)"
    using a by (simp add: poll_continue [where condition = dataVolumeCondition, OF c]
        del: PollUntilContextTimeout.simps)
  moreover have "polls (snd (PollUntilContextTimeout dataVolumeCondition lp ((r # pre) @ rest)))
          = length (r # pre) + polls (snd (PollUntilContextTimeout dataVolumeCondition lp' rest))"
    using b p by (simp add: poll_continue [where condition = dataVolumeCondition, OF c] polls_append
        del: PollUntilContextTimeout.simps)
  ultimately show ?case by blast
qed

lemma poll_terminal:
  assumes "list_all nonTerminal pre"
    and "\<And>lp. \<exists>lp' evs. dataVolumeCondition lp r = ((ok, err), lp', evs) \<and> polls evs = 1"
    and "err \<noteq> None \<or> ok"
  shows "fst (PollUntilContextTimeout dataVolumeCondition lp (pre @ r # post)) = err
     \<and> polls (snd (PollUntilContextTimeout dataVolumeCondition lp (pre @ r # post))) = length pre + 1"
proof -
  from poll_prefix [OF assms(1), of lp "r # post"] obtain lp'
    where a: "fst (PollUntilContextTimeout dataVolumeCondition lp (pre @ r # post))
            = fst (PollUntilContextTimeout dataVolumeCondition lp' (r # post))"
      and b: "polls (snd (PollUntilContextTimeout dataVolumeCondition lp (pre @ r # post)))
            = length pre + polls (snd (PollUntilContextTimeout dataVolumeCondition lp' (r # post)))"
    by blast
  from assms(2) [of lp'] obtain lp2 evs
    where c: "dataVolumeCondition lp' r = ((ok, err), lp2, evs)" and p: "polls evs = 1"
    by blast
  have "PollUntilContextTimeout dataVolumeCondition lp' (r # post) = (err, evs)"
    using c assms(3) by (rule poll_stop [where condition = dataVolumeCondition])
  with a b p show ?thesis by simp
qed

lemma poll_exhausted:
  assumes "list_all nonTerminal rs"
  shows "fst (PollUntilContextTimeout dataVolumeCondition lp rs) = Some DeadlineExceeded
     \<and> polls (snd (PollUntilContextTimeout dataVolumeCondition lp rs)) = length rs"
  using poll_prefix [OF assms, of lp "[]"] by (auto simp add: polls_def)

lemma poll_success_only:
  "fst (PollUntilContextTimeout dataVolumeCondition lp rs) = None \<Longrightarrow>
   \<exists>pre r post. rs = pre @ r # post \<and> list_all nonTerminal pre
      \<and> observedPhase r = Some ''Succeeded''"
proof (induction rs arbitrary: lp)
  case Nil
  then show ?case by simp
next
  case (Cons r rs)
  show ?case
  proof (cases "observedPhase r = Some ''Succeeded''")
    case True
    then have "r # rs = [] @ r # rs \<and> list_all nonTerminal [] \<and> observedPhase r = Some ''Succeeded''"
      by simp
    then show ?thesis by blast
  next
    case notS: False
    show ?thesis
    proof (cases "nonTerminal r")
      case True
      from condition_nonTerminal [OF True, of lp] obtain lp1 evs
        where c: "dataVolumeCondition lp r = ((False, None), lp1, evs)" by blast
      from Cons.prems have "fst (PollUntilContextTimeout dataVolumeCondition lp1 rs) = None"
        unfolding poll_continue [where condition = dataVolumeCondition, OF c] by simp
      from Cons.IH [OF this] obtain pre r' post
        where "rs = pre @ r' # post" "list_all nonTerminal pre" "observedPhase r' = Some ''Succeeded''"
        by blast
      with True have "r # rs = (r # pre) @ r' # post \<and> list_all nonTerminal (r # pre)
          \<and> observedPhase r' = Some ''Succeeded''"
        by simp
      then show ?thesis by blast
    next
      case False
      with notS have "\<exists>e lp' evs. dataVolumeCondition lp r = ((False, Some e), lp', evs)"
        by (auto simp add: nonTerminal_def statusAbsent_def observedPhase_def
            dataVolumeCondition_def DVPhaseFailed_def DVPhaseSucceeded_def Let_def
            split: sum.splits option.splits)
      with Cons.prems show ?thesis by auto
    qed
  qed
qed

lemma example_nonTerminal:
  "nonTerminal (Inr [])" "nonTerminal (Inr (dvWithPhase ''ImportScheduled''))"
  "nonTerminal (Inr (dvWithPhase ''ImportInProgress''))"
  by (simp_all add: nonTerminal_def statusAbsent_def observedPhase_def dvWithPhase_def)

text \<open>
  Claim C5. Over any sequence of answers to the polls of the import job: a poll that
  finds no status, or a phase other than \<^verbatim>\<open>Succeeded\<close> and \<^verbatim>\<open>Failed\<close>, is not
  terminal, and a wait that meets only such polls asks every answer and ends with the
  deadline error. After polls that are not terminal, a poll that finds the phase
  \<^verbatim>\<open>Succeeded\<close> ends the wait with success at that poll, and a poll that finds the
  phase \<^verbatim>\<open>Failed\<close> ends it at that poll with the error that carries the raw
  condition list. The wait succeeds exactly when such a \<^verbatim>\<open>Succeeded\<close> poll exists.
\<close>

theorem waitForDataVolume_phases:
  "(statusAbsent r \<longrightarrow> fst (dataVolumeCondition lastPhase r) = (False, None))
   \<and> (observedPhase r = Some p \<and> p \<noteq> ''Succeeded'' \<and> p \<noteq> ''Failed''
        \<longrightarrow> fst (dataVolumeCondition lastPhase r) = (False, None))
   \<and> (list_all nonTerminal (dvGets w) \<longrightarrow>
      fst (waitForDataVolume w) = Some DeadlineExceeded
      \<and> polls (snd (waitForDataVolume w)) = length (dvGets w))
   \<and> (dvGets w = pre @ r # post \<and> list_all nonTerminal pre \<and> observedPhase r = Some ''Succeeded''
        \<longrightarrow> fst (waitForDataVolume w) = None \<and> polls (snd (waitForDataVolume w)) = length pre + 1)
   \<and> (dvGets w = pre @ r # post \<and> list_all nonTerminal pre \<and> observedPhase r = Some ''Failed''
        \<longrightarrow> fst (waitForDataVolume w) = Some (DataVolumeFailed (rawConditions r))
          \<and> polls (snd (waitForDataVolume w)) = length pre + 1)
   \<and> (fst (waitForDataVolume w) = None \<longleftrightarrow>
        (\<exists>pre r post. dvGets w = pre @ r # post \<and> list_all nonTerminal pre
           \<and> observedPhase r = Some ''Succeeded''))"
proof -
  have a: "list_all nonTerminal (dvGets w) \<longrightarrow>
      fst (waitForDataVolume w) = Some DeadlineExceeded
      \<and> polls (snd (waitForDataVolume w)) = length (dvGets w)"
    using poll_exhausted [of "dvGets w" "[]"] by (simp add: waitForDataVolume_def)
  have b: "fst (waitForDataVolume w) = None \<and> polls (snd (waitForDataVolume w)) = length pre' + 1"
    if "dvGets w = pre' @ r' # post'" "list_all nonTerminal pre'"
      "observedPhase r' = Some ''Succeeded''" for pre' r' post'
    using that poll_terminal [OF that(2) condition_Succeeded [OF that(3)], of "[]" post']
    by (simp add: waitForDataVolume_def)
  have c: "fst (waitForDataVolume w) = Some (DataVolumeFailed (rawConditions r'))
       \<and> polls (snd (waitForDataVolume w)) = length pre' + 1"
    if "dvGets w = pre' @ r' # post'" "list_all nonTerminal pre'"
      "observedPhase r' = Some ''Failed''" for pre' r' post'
    using that poll_terminal [OF that(2) condition_Failed [OF that(3)], of "[]" post']
    by (simp add: waitForDataVolume_def)
  have d: "fst (waitForDataVolume w) = None \<longleftrightarrow>
        (\<exists>pre r post. dvGets w = pre @ r # post \<and> list_all nonTerminal pre
           \<and> observedPhase r = Some ''Succeeded'')"
    using b poll_success_only [of "[]" "dvGets w"] by (auto simp add: waitForDataVolume_def)
  have e: "statusAbsent r \<longrightarrow> fst (dataVolumeCondition lastPhase r) = (False, None)"
    by (auto simp add: statusAbsent_def dataVolumeCondition_def split: sum.splits)
  have f: "observedPhase r = Some p \<and> p \<noteq> ''Succeeded'' \<and> p \<noteq> ''Failed''
        \<longrightarrow> fst (dataVolumeCondition lastPhase r) = (False, None)"
    by (auto simp add: observedPhase_def dataVolumeCondition_def DVPhaseFailed_def
        DVPhaseSucceeded_def Let_def split: sum.splits option.splits)
  from a b c d e f show ?thesis by blast
qed

theorem waitForDataVolume_phases_witness:
  "fst (waitForDataVolume exampleWorld) = None
   \<and> polls (snd (waitForDataVolume exampleWorld)) = 4
   \<and> fst (waitForDataVolume (exampleWorld\<lparr>dvGets := [Inr [], Inr dvFailed, Inr (dvWithPhase ''Succeeded'')]\<rparr>))
       = Some (DataVolumeFailed [JMap [(''reason'', JStr ''ImportFailed'')]])
   \<and> polls (snd (waitForDataVolume (exampleWorld\<lparr>dvGets := [Inr [], Inr dvFailed, Inr (dvWithPhase ''Succeeded'')]\<rparr>)))
       = 2
   \<and> fst (waitForDataVolume (exampleWorld\<lparr>dvGets := [Inr [], Inr (dvWithPhase ''ImportInProgress'')]\<rparr>))
       = Some DeadlineExceeded"
proof -
  let ?pre = "[Inr [], Inr (dvWithPhase ''ImportScheduled''), Inr (dvWithPhase ''ImportInProgress'')]
                :: (error + object) list"
  let ?wf = "exampleWorld\<lparr>dvGets := [Inr [], Inr dvFailed, Inr (dvWithPhase ''Succeeded'')]\<rparr>"
  let ?wt = "exampleWorld\<lparr>dvGets := [Inr [], Inr (dvWithPhase ''ImportInProgress'')]\<rparr>"
  have s: "dvGets exampleWorld = ?pre @ Inr (dvWithPhase ''Succeeded'') # []
      \<and> list_all nonTerminal ?pre
      \<and> observedPhase (Inr (dvWithPhase ''Succeeded'')) = Some ''Succeeded''"
    by (simp add: exampleWorld_def example_nonTerminal) (simp add: observedPhase_def dvWithPhase_def)
  have f: "dvGets ?wf = [Inr []] @ Inr dvFailed # [Inr (dvWithPhase ''Succeeded'')]
      \<and> list_all nonTerminal [Inr []]
      \<and> observedPhase (Inr dvFailed) = Some ''Failed''"
    by (simp add: example_nonTerminal) (simp add: observedPhase_def dvFailed_def)
  have t: "list_all nonTerminal (dvGets ?wt)"
    by (simp add: example_nonTerminal)
  have c: "rawConditions (Inr dvFailed) = [JMap [(''reason'', JStr ''ImportFailed'')]]"
    by (simp add: rawConditions_def dvFailed_def)
  from waitForDataVolume_phases [where w = exampleWorld and pre = ?pre
      and r = "Inr (dvWithPhase ''Succeeded'')" and post = "[]",
      THEN conjunct2, THEN conjunct2, THEN conjunct2, THEN conjunct1] s
  have 1: "fst (waitForDataVolume exampleWorld) = None
      \<and> polls (snd (waitForDataVolume exampleWorld)) = length ?pre + 1"
    by (rule mp)
  from waitForDataVolume_phases [where w = ?wf and pre = "[Inr []]" and r = "Inr dvFailed"
      and post = "[Inr (dvWithPhase ''Succeeded'')]",
      THEN conjunct2, THEN conjunct2, THEN conjunct2, THEN conjunct2, THEN conjunct1] f
  have 2: "fst (waitForDataVolume ?wf) = Some (DataVolumeFailed (rawConditions (Inr dvFailed)))
      \<and> polls (snd (waitForDataVolume ?wf)) = length [Inr [] :: error + object] + 1"
    by (rule mp)
  from waitForDataVolume_phases [where w = ?wt, THEN conjunct2, THEN conjunct2, THEN conjunct1] t
  have "fst (waitForDataVolume ?wt) = Some DeadlineExceeded
      \<and> polls (snd (waitForDataVolume ?wt)) = length (dvGets ?wt)"
    by (rule mp)
  then have 3: "fst (waitForDataVolume ?wt) = Some DeadlineExceeded" ..
  from 1 2 3 c show ?thesis by simp
qed

text \<open>
  Claim C10. After polls that are not terminal, a poll whose fetch of the import job
  fails ends the wait at that poll: the wait returns the fetch error (wrapped as
  \<^verbatim>\<open>getting DataVolume\<close>) and asks for no further answer, whatever the later
  answers would have been.
\<close>

theorem waitForDataVolume_fetch_error:
  "dvGets w = pre @ Inl e # post \<and> list_all nonTerminal pre \<longrightarrow>
     fst (waitForDataVolume w) = Some (Wrapf ''getting DataVolume'' e)
     \<and> polls (snd (waitForDataVolume w)) = length pre + 1"
proof
  assume h: "dvGets w = pre @ Inl e # post \<and> list_all nonTerminal pre"
  then have n: "list_all nonTerminal pre" by simp
  have "fst (PollUntilContextTimeout dataVolumeCondition [] (pre @ Inl e # post))
          = Some (Wrapf ''getting DataVolume'' e)
      \<and> polls (snd (PollUntilContextTimeout dataVolumeCondition [] (pre @ Inl e # post)))
          = length pre + 1"
    by (rule poll_terminal [OF n condition_error]) simp
  with h show "fst (waitForDataVolume w) = Some (Wrapf ''getting DataVolume'' e)
     \<and> polls (snd (waitForDataVolume w)) = length pre + 1"
    by (simp add: waitForDataVolume_def)
qed

theorem waitForDataVolume_fetch_error_witness:
  "fst (waitForDataVolume
         (exampleWorld\<lparr>dvGets := [Inr (dvWithPhase ''ImportInProgress''),
                                  Inl (Generic ''connection refused''),
                                  Inr (dvWithPhase ''Succeeded'')]\<rparr>))
     = Some (Wrapf ''getting DataVolume'' (Generic ''connection refused''))
   \<and> polls (snd (waitForDataVolume
         (exampleWorld\<lparr>dvGets := [Inr (dvWithPhase ''ImportInProgress''),
                                  Inl (Generic ''connection refused''),
                                  Inr (dvWithPhase ''Succeeded'')]\<rparr>))) = 2"
proof -
  let ?w = "exampleWorld\<lparr>dvGets := [Inr (dvWithPhase ''ImportInProgress''),
                                  Inl (Generic ''connection refused''),
                                  Inr (dvWithPhase ''Succeeded'')]\<rparr>"
  have h: "dvGets ?w = [Inr (dvWithPhase ''ImportInProgress'')] @ Inl (Generic ''connection refused'')
             # [Inr (dvWithPhase ''Succeeded'')]
      \<and> list_all nonTerminal [Inr (dvWithPhase ''ImportInProgress'')]"
    by (simp add: example_nonTerminal)
  from waitForDataVolume_fetch_error [of ?w "[Inr (dvWithPhase ''ImportInProgress'')]"
      "Generic ''connection refused''" "[Inr (dvWithPhase ''Succeeded'')]"] h
  show ?thesis by simp
qed

section \<open>Cleanup of the ephemeral origin\<close>

lemma noDeletion_append: "noDeletion (xs @ ys) = (noDeletion xs \<and> noDeletion ys)"
  by (auto simp add: noDeletion_def)

lemma noDeletion_Cons: "noDeletion (x # xs) = (x \<noteq> DeleteService \<and> x \<noteq> DeletePod \<and> noDeletion xs)"
  by (auto simp add: noDeletion_def)

lemma noDeletion_Nil: "noDeletion []"
  by (simp add: noDeletion_def)

lemma poll_noDeletion:
  "(\<And>s r. noDeletion (snd (snd (condition s r)))) \<Longrightarrow>
   noDeletion (snd (PollUntilContextTimeout condition s rs))"
proof (induction rs arbitrary: s)
  case Nil
  show ?case by (simp add: noDeletion_Nil)
next
  case (Cons r rs)
  obtain ok err s' evs where c: "condition s r = ((ok, err), s', evs)"
    by (metis prod.exhaust)
  from Cons.prems [of s r] c have e: "noDeletion evs" by simp
  from Cons.IH [OF Cons.prems, of s'] have i: "noDeletion (snd (PollUntilContextTimeout condition s' rs))" .
  from c e i show ?case
    by (auto simp add: noDeletion_append split: prod.splits)
qed

lemma createServerPod_noDeletion: "noDeletion (snd (createServerPod w))"
proof -
  have "noDeletion (snd (PollUntilContextTimeout podReadyCondition () (podGets w)))"
    by (rule poll_noDeletion) (simp add: podReadyCondition_def noDeletion_def split: sum.splits)
  then show ?thesis
    by (auto simp add: createServerPod_def noDeletion_Cons noDeletion_Nil split: option.splits prod.splits)
qed

lemma createServerService_noDeletion: "noDeletion (snd (createServerService w))"
  by (simp add: createServerService_def noDeletion_def split: option.splits)

lemma streamImageToPod_noDeletion: "noDeletion (snd (streamImageToPod w))"
  by (simp add: streamImageToPod_def noDeletion_def split: option.splits sum.splits)

lemma createDataVolume_noDeletion: "noDeletion (snd (createDataVolume u w))"
  by (simp add: createDataVolume_def noDeletion_def split: option.splits)

lemma waitForDataVolume_noDeletion: "noDeletion (snd (waitForDataVolume w))"
  unfolding waitForDataVolume_def
  by (rule poll_noDeletion)
     (simp add: dataVolumeCondition_def noDeletion_def Let_def split: sum.splits option.splits)

lemma cleanup_deletions:
  "serviceDeletions (cleanup w) = 1" "podDeletions (cleanup w) = 1"
  by (simp_all add: cleanup_def serviceDeletions_def podDeletions_def split: option.splits)

lemma noDeletion_counts:
  "noDeletion t \<Longrightarrow> serviceDeletions (t @ t') = serviceDeletions t'"
  "noDeletion t \<Longrightarrow> podDeletions (t @ t') = podDeletions t'"
  by (induction t) (auto simp add: noDeletion_def serviceDeletions_def podDeletions_def)

lemma noDeletion_zero:
  "noDeletion t \<Longrightarrow> serviceDeletions t = 0 \<and> podDeletions t = 0"
  by (induction t) (auto simp add: noDeletion_def serviceDeletions_def podDeletions_def)

lemma uploadViaHTTPSource_trace:
  "fst (createServerPod w) = None \<Longrightarrow>
   \<exists>t. snd (uploadViaHTTPSource u w) = t @ cleanup w \<and> noDeletion t"
  using createServerPod_noDeletion [of w] createServerService_noDeletion [of w]
    streamImageToPod_noDeletion [of w] createDataVolume_noDeletion [of u w]
    waitForDataVolume_noDeletion [of w]
  by (auto simp add: uploadViaHTTPSource_def noDeletion_append split: prod.splits option.splits)

lemma uploadViaHTTPSource_failed_start:
  "fst (createServerPod w) = Some e \<Longrightarrow>
   uploadViaHTTPSource u w = (Some (Wrapf ''creating server pod'' e), snd (createServerPod w))"
  by (auto simp add: uploadViaHTTPSource_def split: prod.splits option.splits)

lemma steps_ignore_deletes:
  "createServerPod (w\<lparr>svcDelete := sd, podDelete := pd\<rparr>) = createServerPod w"
  "createServerService (w\<lparr>svcDelete := sd, podDelete := pd\<rparr>) = createServerService w"
  "streamImageToPod (w\<lparr>svcDelete := sd, podDelete := pd\<rparr>) = streamImageToPod w"
  "createDataVolume u (w\<lparr>svcDelete := sd, podDelete := pd\<rparr>) = createDataVolume u w"
  "waitForDataVolume (w\<lparr>svcDelete := sd, podDelete := pd\<rparr>) = waitForDataVolume w"
  by (simp_all add: createServerPod_def createServerService_def streamImageToPod_def
      tarWriter_def createDataVolume_def waitForDataVolume_def
      split: option.splits sum.splits)

lemma uploadViaHTTPSource_result_ignores_deletes:
  "fst (uploadViaHTTPSource u (w\<lparr>svcDelete := sd, podDelete := pd\<rparr>)) = fst (uploadViaHTTPSource u w)"
  by (simp add: uploadViaHTTPSource_def steps_ignore_deletes split: prod.splits option.splits)

lemma cleanup_after_started_origin:
  "fst (createServerPod w) = None \<Longrightarrow>
     serviceDeletions (snd (uploadViaHTTPSource u w)) = 1
     \<and> podDeletions (snd (uploadViaHTTPSource u w)) = 1
     \<and> (\<exists>t. snd (uploadViaHTTPSource u w) = t @ cleanup w
             \<and> serviceDeletions t = 0 \<and> podDeletions t = 0)"
proof -
  assume "fst (createServerPod w) = None"
  from uploadViaHTTPSource_trace [OF this, of u] obtain t
    where t: "snd (uploadViaHTTPSource u w) = t @ cleanup w" and n: "noDeletion t"
    by blast
  from t n have "serviceDeletions (snd (uploadViaHTTPSource u w)) = 1"
    "podDeletions (snd (uploadViaHTTPSource u w)) = 1"
    by (simp_all add: noDeletion_counts cleanup_deletions)
  moreover from t n noDeletion_zero [OF n]
  have "\<exists>t. snd (uploadViaHTTPSource u w) = t @ cleanup w
            \<and> serviceDeletions t = 0 \<and> podDeletions t = 0"
    by blast
  ultimately show ?thesis by blast
qed

lemma failed_start_skips_cleanup:
  "fst (createServerPod w) = Some e \<Longrightarrow>
     fst (uploadViaHTTPSource u w) = Some (Wrapf ''creating server pod'' e)
     \<and> CreatePod \<in> set (snd (uploadViaHTTPSource u w))
     \<and> serviceDeletions (snd (uploadViaHTTPSource u w)) = 0
     \<and> podDeletions (snd (uploadViaHTTPSource u w)) = 0"
proof -
  assume f: "fst (createServerPod w) = Some e"
  have c: "CreatePod \<in> set (snd (createServerPod w))"
    by (auto simp add: createServerPod_def split: option.splits prod.splits)
  from uploadViaHTTPSource_failed_start [OF f, of u] c
    noDeletion_zero [OF createServerPod_noDeletion [of w]]
  show ?thesis by simp
qed

text \<open>
  Claim C1, at a failure of the first step. The pod is created, and it is not ready at
  any poll before the deadline of the readiness wait. \<^verbatim>\<open>uploadViaHTTPSource\<close>
  returns the error of \<^verbatim>\<open>createServerPod\<close> before the cleanup is deferred: the
  trace is the creation of the pod and the polls, and neither the service nor the
  pod is deleted, so the pod stays behind. In the run where the first step succeeds
  and the import job fails, the service and the pod are each deleted once.
\<close>

theorem cleanup_skipped_at_failed_start:
  "fst (uploadViaHTTPSource exampleUploader (exampleWorld\<lparr>podGets := [Inr [], Inr []]\<rparr>))
     = Some (Wrapf ''creating server pod'' DeadlineExceeded)
   \<and> snd (uploadViaHTTPSource exampleUploader (exampleWorld\<lparr>podGets := [Inr [], Inr []]\<rparr>))
     = [CreatePod, GetPod, GetPod]
   \<and> serviceDeletions
       (snd (uploadViaHTTPSource exampleUploader (exampleWorld\<lparr>podGets := [Inr [], Inr []]\<rparr>))) = 0
   \<and> podDeletions
       (snd (uploadViaHTTPSource exampleUploader (exampleWorld\<lparr>podGets := [Inr [], Inr []]\<rparr>))) = 0
   \<and> fst (uploadViaHTTPSource exampleUploader (exampleWorld\<lparr>dvGets := [Inr dvFailed]\<rparr>))
       = Some (Wrapf ''waiting for DataVolume''
                (DataVolumeFailed [JMap [(''reason'', JStr ''ImportFailed'')]]))
   \<and> serviceDeletions
       (snd (uploadViaHTTPSource exampleUploader (exampleWorld\<lparr>dvGets := [Inr dvFailed]\<rparr>))) = 1
   \<and> podDeletions
       (snd (uploadViaHTTPSource exampleUploader (exampleWorld\<lparr>dvGets := [Inr dvFailed]\<rparr>))) = 1"
proof -
  let ?w = "exampleWorld\<lparr>dvGets := [Inr dvFailed]\<rparr>"
  let ?v = "exampleWorld\<lparr>podGets := [Inr [], Inr []]\<rparr>"
  have a: "fst (uploadViaHTTPSource exampleUploader ?v)
             = Some (Wrapf ''creating server pod'' DeadlineExceeded)
      \<and> snd (uploadViaHTTPSource exampleUploader ?v) = [CreatePod, GetPod, GetPod]
      \<and> serviceDeletions (snd (uploadViaHTTPSource exampleUploader ?v)) = 0
      \<and> podDeletions (snd (uploadViaHTTPSource exampleUploader ?v)) = 0"
    by (simp add: uploadViaHTTPSource_def createServerPod_def podReadyCondition_def
        exampleWorld_def serviceDeletions_def podDeletions_def)
  have p: "fst (createServerPod ?w) = None"
    by (simp add: createServerPod_def podReadyCondition_def exampleWorld_def)
  have b: "serviceDeletions (snd (uploadViaHTTPSource exampleUploader ?w)) = 1
      \<and> podDeletions (snd (uploadViaHTTPSource exampleUploader ?w)) = 1"
    using cleanup_after_started_origin [OF p, of exampleUploader] by blast
  have c: "fst (uploadViaHTTPSource exampleUploader ?w)
       = Some (Wrapf ''waiting for DataVolume''
                (DataVolumeFailed [JMap [(''reason'', JStr ''ImportFailed'')]]))"
    by (simp add: uploadViaHTTPSource_def createServerPod_def podReadyCondition_def
        createServerService_def streamImageToPod_def tarWriter_def createDataVolume_def
        waitForDataVolume_def dataVolumeCondition_def DVPhaseFailed_def dvFailed_def
        exampleWorld_def Let_def)
  from a b c show ?thesis by blast
qed

end
